theory Spec2Isabelle
  imports Complex_Main "HOL-Library.Multiset"
begin

section \<open>Python strings\<close>

text \<open>
  A Python \<open>str\<close> is a sequence of Unicode code points. A code point is a natural
  number here, so that \<open>len\<close>, slicing and \<open>strip\<close> count what Python counts.
  \<open>ascii\<close> reads an ASCII literal as such a sequence.
\<close>

type_synonym pystr = "nat list"

definition ascii :: "string \<Rightarrow> pystr" where
  "ascii s = map of_char s"

text \<open>
  \<open>str.isspace\<close> on one code point: the code points whose bidirectional class is
  WS, B or S, or whose category is Zs (CPython's \<open>_PyUnicode_IsWhitespace\<close>).
\<close>

definition py_isspace :: "nat \<Rightarrow> bool" where
  "py_isspace c =
     ((9 \<le> c \<and> c \<le> 13) \<or> (28 \<le> c \<and> c \<le> 32) \<or> c = 133 \<or> c = 160 \<or> c = 5760
      \<or> (8192 \<le> c \<and> c \<le> 8202) \<or> c = 8232 \<or> c = 8233 \<or> c = 8239 \<or> c = 8287
      \<or> c = 12288)"

text \<open>\<open>s.strip()\<close>: leading and trailing whitespace removed.\<close>

definition strip :: "pystr \<Rightarrow> pystr" where
  "strip s = rev (dropWhile py_isspace (rev (dropWhile py_isspace s)))"

text \<open>\<open>s.startswith(p)\<close>.\<close>

definition startswith :: "pystr \<Rightarrow> pystr \<Rightarrow> bool" where
  "startswith s p = (take (length p) s = p)"

text \<open>\<open>sub in s\<close>: \<open>sub\<close> occurs in \<open>s\<close> as a contiguous run.\<close>

fun py_in :: "pystr \<Rightarrow> pystr \<Rightarrow> bool" where
  "py_in sub [] = (sub = [])"
| "py_in sub (c # cs) = (startswith (c # cs) sub \<or> py_in sub cs)"

text \<open>
  \<open>s.count(sub)\<close>: the number of non-overlapping occurrences, scanning from the left;
  for the empty \<open>sub\<close> Python answers \<open>len(s) + 1\<close>.
\<close>

function py_count :: "pystr \<Rightarrow> pystr \<Rightarrow> nat" where
  "py_count s sub =
     (if sub = [] then length s + 1
      else if s = [] then 0
      else if startswith s sub then 1 + py_count (drop (length sub) s) sub
      else py_count (tl s) sub)"
  by pat_completeness auto
termination
  by (relation "measure (\<lambda>(s, sub). length s)") auto

declare py_count.simps [simp del]

section \<open>FileStats\<close>

record FileStats =
  path :: pystr
  total_lines :: int
  code_lines :: int
  comment_lines :: int
  docstring_lines :: int
  blank_lines :: int
  language :: pystr

text \<open>\<open>FileStats(path=p, language=l)\<close>: the counters take their default, 0.\<close>

definition new_FileStats :: "pystr \<Rightarrow> pystr \<Rightarrow> FileStats" where
  "new_FileStats p l =
     \<lparr>path = p, total_lines = 0, code_lines = 0, comment_lines = 0,
      docstring_lines = 0, blank_lines = 0, language = l\<rparr>"

text \<open>The four statements \<open>stats.X_lines += 1\<close>.\<close>

definition inc_code :: "FileStats \<Rightarrow> FileStats" where
  "inc_code s = s\<lparr>code_lines := code_lines s + 1\<rparr>"

definition inc_comment :: "FileStats \<Rightarrow> FileStats" where
  "inc_comment s = s\<lparr>comment_lines := comment_lines s + 1\<rparr>"

definition inc_docstring :: "FileStats \<Rightarrow> FileStats" where
  "inc_docstring s = s\<lparr>docstring_lines := docstring_lines s + 1\<rparr>"

definition inc_blank :: "FileStats \<Rightarrow> FileStats" where
  "inc_blank s = s\<lparr>blank_lines := blank_lines s + 1\<rparr>"

section \<open>Line classifiers\<close>

text \<open>
  Every classifier is a \<open>for\<close> loop over the lines. The loop's variables are a record:
  \<open>stats\<close> and the flags of the grammar. One iteration is a step function (each
  \<open>continue\<close> ends the iteration, so the tests form one chain), the loop is its
  \<open>foldl\<close> over the lines.
\<close>

record scan =
  stats :: FileStats

record brace_state = scan +
  in_block_comment :: bool
  in_doc_block :: bool

subsection \<open>classify_swift_lines\<close>

definition swift_step :: "brace_state \<Rightarrow> pystr \<Rightarrow> brace_state" where
  "swift_step st line =
     (let stripped = strip line in
      if stripped = [] then st\<lparr>stats := inc_blank (stats st)\<rparr>
      else if in_block_comment st \<or> in_doc_block st then
        (let st1 = (if in_doc_block st then st\<lparr>stats := inc_docstring (stats st)\<rparr>
                    else st\<lparr>stats := inc_comment (stats st)\<rparr>)
         in if py_in (ascii ''*/'') stripped
            then st1\<lparr>in_block_comment := False, in_doc_block := False\<rparr>
            else st1)
      else if startswith stripped (ascii ''/**'') then
        (let st1 = st\<lparr>in_doc_block := True, stats := inc_docstring (stats st)\<rparr>
         in if py_in (ascii ''*/'') (drop 3 stripped)
            then st1\<lparr>in_doc_block := False\<rparr>
            else st1)
      else if startswith stripped (ascii ''/*'') then
        (let st1 = st\<lparr>in_block_comment := True, stats := inc_comment (stats st)\<rparr>
         in if py_in (ascii ''*/'') (drop 2 stripped)
            then st1\<lparr>in_block_comment := False\<rparr>
            else st1)
      else if startswith stripped (ascii ''///'') then st\<lparr>stats := inc_docstring (stats st)\<rparr>
      else if startswith stripped (ascii ''//'') then st\<lparr>stats := inc_comment (stats st)\<rparr>
      else st\<lparr>stats := inc_code (stats st)\<rparr>)"

definition swift_init :: "pystr list \<Rightarrow> brace_state" where
  "swift_init lines =
     \<lparr>stats = (new_FileStats [] (ascii ''Swift''))\<lparr>total_lines := int (length lines)\<rparr>,
      in_block_comment = False, in_doc_block = False\<rparr>"

definition classify_swift_lines :: "pystr list \<Rightarrow> FileStats" where
  "classify_swift_lines lines = stats (foldl swift_step (swift_init lines) lines)"

subsection \<open>classify_kotlin_lines\<close>

definition kotlin_step :: "brace_state \<Rightarrow> pystr \<Rightarrow> brace_state" where
  "kotlin_step st line =
     (let stripped = strip line in
      if stripped = [] then st\<lparr>stats := inc_blank (stats st)\<rparr>
      else if in_block_comment st \<or> in_doc_block st then
        (let st1 = (if in_doc_block st then st\<lparr>stats := inc_docstring (stats st)\<rparr>
                    else st\<lparr>stats := inc_comment (stats st)\<rparr>)
         in if py_in (ascii ''*/'') stripped
            then st1\<lparr>in_block_comment := False, in_doc_block := False\<rparr>
            else st1)
      else if startswith stripped (ascii ''/**'') then
        (let st1 = st\<lparr>in_doc_block := True, stats := inc_docstring (stats st)\<rparr>
         in if py_in (ascii ''*/'') (drop 3 stripped)
            then st1\<lparr>in_doc_block := False\<rparr>
            else st1)
      else if startswith stripped (ascii ''/*'') then
        (let st1 = st\<lparr>in_block_comment := True, stats := inc_comment (stats st)\<rparr>
         in if py_in (ascii ''*/'') (drop 2 stripped)
            then st1\<lparr>in_block_comment := False\<rparr>
            else st1)
      else if startswith stripped (ascii ''///'') then st\<lparr>stats := inc_docstring (stats st)\<rparr>
      else if startswith stripped (ascii ''//'') then st\<lparr>stats := inc_comment (stats st)\<rparr>
      else st\<lparr>stats := inc_code (stats st)\<rparr>)"

definition kotlin_init :: "pystr list \<Rightarrow> brace_state" where
  "kotlin_init lines =
     \<lparr>stats = (new_FileStats [] (ascii ''Kotlin''))\<lparr>total_lines := int (length lines)\<rparr>,
      in_block_comment = False, in_doc_block = False\<rparr>"

definition classify_kotlin_lines :: "pystr list \<Rightarrow> FileStats" where
  "classify_kotlin_lines lines = stats (foldl kotlin_step (kotlin_init lines) lines)"

subsection \<open>classify_python_lines\<close>

text \<open>
  The two delimiters of a docstring: three double quotes (code point 34) and three
  single quotes (code point 39).
\<close>

definition triple_double :: pystr where
  "triple_double = [34, 34, 34]"

definition triple_single :: pystr where
  "triple_single = [39, 39, 39]"

datatype py_error = TypeError | IndexError

text \<open>
  \<open>docstring_delimiter\<close> is \<open>None\<close> or a string. The test
  \<open>docstring_delimiter in stripped\<close> raises \<open>TypeError\<close> when it is \<open>None\<close>, so an
  iteration returns an error or the next state.
\<close>

record python_state = scan +
  in_docstring :: bool
  docstring_delimiter :: "pystr option"

definition python_step :: "python_state \<Rightarrow> pystr \<Rightarrow> py_error + python_state" where
  "python_step st line =
     (let stripped = strip line in
      if stripped = [] then Inr (st\<lparr>stats := inc_blank (stats st)\<rparr>)
      else if in_docstring st then
        (let st1 = st\<lparr>stats := inc_docstring (stats st)\<rparr>
         in case docstring_delimiter st of
              None \<Rightarrow> Inl TypeError
            | Some d \<Rightarrow>
                if py_in d stripped
                then Inr (st1\<lparr>in_docstring := False, docstring_delimiter := None\<rparr>)
                else Inr st1)
      else if startswith stripped triple_double \<or> startswith stripped triple_single then
        (let delimiter = take 3 stripped
         in if py_count stripped delimiter \<ge> 2 \<and> length stripped > 3
            then Inr (st\<lparr>stats := inc_docstring (stats st)\<rparr>)
            else Inr (st\<lparr>in_docstring := True, docstring_delimiter := Some delimiter,
                          stats := inc_docstring (stats st)\<rparr>))
      else if startswith stripped (ascii ''#'') then Inr (st\<lparr>stats := inc_comment (stats st)\<rparr>)
      else Inr (st\<lparr>stats := inc_code (stats st)\<rparr>))"

fun python_loop :: "python_state \<Rightarrow> pystr list \<Rightarrow> py_error + python_state" where
  "python_loop st [] = Inr st"
| "python_loop st (line # rest) =
     (case python_step st line of
        Inl e \<Rightarrow> Inl e
      | Inr st' \<Rightarrow> python_loop st' rest)"

definition python_init :: "pystr list \<Rightarrow> python_state" where
  "python_init lines =
     \<lparr>stats = (new_FileStats [] (ascii ''Python''))\<lparr>total_lines := int (length lines)\<rparr>,
      in_docstring = False, docstring_delimiter = None\<rparr>"

definition classify_python_lines :: "pystr list \<Rightarrow> py_error + FileStats" where
  "classify_python_lines lines =
     (case python_loop (python_init lines) lines of
        Inl e \<Rightarrow> Inl e
      | Inr st \<Rightarrow> Inr (stats st))"

subsection \<open>classify_xml_lines\<close>

record xml_state = scan +
  in_comment :: bool

definition xml_step :: "xml_state \<Rightarrow> pystr \<Rightarrow> xml_state" where
  "xml_step st line =
     (let stripped = strip line in
      if stripped = [] then st\<lparr>stats := inc_blank (stats st)\<rparr>
      else if in_comment st then
        (let st1 = st\<lparr>stats := inc_comment (stats st)\<rparr>
         in if py_in (ascii ''-->'') stripped then st1\<lparr>in_comment := False\<rparr> else st1)
      else if startswith stripped (ascii ''<!--'') then
        (let st1 = st\<lparr>stats := inc_comment (stats st)\<rparr>
         in if \<not> py_in (ascii ''-->'') (drop 4 stripped) then st1\<lparr>in_comment := True\<rparr> else st1)
      else st\<lparr>stats := inc_code (stats st)\<rparr>)"

definition xml_init :: "pystr list \<Rightarrow> xml_state" where
  "xml_init lines =
     \<lparr>stats = (new_FileStats [] (ascii ''XML''))\<lparr>total_lines := int (length lines)\<rparr>,
      in_comment = False\<rparr>"

definition classify_xml_lines :: "pystr list \<Rightarrow> FileStats" where
  "classify_xml_lines lines = stats (foldl xml_step (xml_init lines) lines)"

subsection \<open>classify_markdown_lines, classify_yaml_lines, classify_generic_lines\<close>

text \<open>These three loops have no variable but \<open>stats\<close>.\<close>

definition markdown_step :: "FileStats \<Rightarrow> pystr \<Rightarrow> FileStats" where
  "markdown_step s line = (if strip line \<noteq> [] then inc_docstring s else inc_blank s)"

definition classify_markdown_lines :: "pystr list \<Rightarrow> FileStats" where
  "classify_markdown_lines lines =
     foldl markdown_step
       ((new_FileStats [] (ascii ''Markdown''))\<lparr>total_lines := int (length lines)\<rparr>) lines"

definition yaml_step :: "FileStats \<Rightarrow> pystr \<Rightarrow> FileStats" where
  "yaml_step s line =
     (let stripped = strip line in
      if stripped = [] then inc_blank s
      else if startswith stripped (ascii ''#'') then inc_comment s
      else inc_code s)"

definition classify_yaml_lines :: "pystr list \<Rightarrow> FileStats" where
  "classify_yaml_lines lines =
     foldl yaml_step
       ((new_FileStats [] (ascii ''YAML''))\<lparr>total_lines := int (length lines)\<rparr>) lines"

definition generic_step :: "FileStats \<Rightarrow> pystr \<Rightarrow> FileStats" where
  "generic_step s line =
     (let stripped = strip line in
      if stripped = [] then inc_blank s
      else if startswith stripped (ascii ''//'') \<or> startswith stripped (ascii ''#'')
      then inc_comment s
      else inc_code s)"

definition classify_generic_lines :: "pystr list \<Rightarrow> pystr \<Rightarrow> FileStats" where
  "classify_generic_lines lines lang =
     foldl generic_step
       ((new_FileStats [] lang)\<lparr>total_lines := int (length lines)\<rparr>) lines"

section \<open>PlatformStats\<close>

record PlatformStats =
  name :: pystr
  files :: "FileStats list"

text \<open>
  The properties of the class; \<open>sum(f.x for f in self.files)\<close> is \<open>sum_list\<close> over the
  list. The line sums carry the prefix \<open>platform_\<close>, their source names being those of the
  fields of \<open>FileStats\<close>.
\<close>

definition total_files :: "PlatformStats \<Rightarrow> int" where
  "total_files ps = int (length (files ps))"

definition platform_total_lines :: "PlatformStats \<Rightarrow> int" where
  "platform_total_lines ps = sum_list (map total_lines (files ps))"

definition platform_code_lines :: "PlatformStats \<Rightarrow> int" where
  "platform_code_lines ps = sum_list (map code_lines (files ps))"

definition platform_comment_lines :: "PlatformStats \<Rightarrow> int" where
  "platform_comment_lines ps = sum_list (map comment_lines (files ps))"

definition platform_docstring_lines :: "PlatformStats \<Rightarrow> int" where
  "platform_docstring_lines ps = sum_list (map docstring_lines (files ps))"

definition platform_blank_lines :: "PlatformStats \<Rightarrow> int" where
  "platform_blank_lines ps = sum_list (map blank_lines (files ps))"

definition file_lengths :: "PlatformStats \<Rightarrow> int list" where
  "file_lengths ps = sort (map total_lines (files ps))"





subsection \<open>_lang_stats\<close>

text \<open>
  One value of the dictionary that \<open>_lang_stats\<close> returns: the keys \<open>files\<close>, \<open>total\<close>,
  \<open>code\<close>, \<open>comments\<close>, \<open>docs\<close>, \<open>blank\<close> as fields.
\<close>

record lang_row =
  lang_files :: int
  lang_total :: int
  lang_code :: int
  lang_comments :: int
  lang_docs :: int
  lang_blank :: int

definition lang_default :: lang_row where
  "lang_default =
     \<lparr>lang_files = 0, lang_total = 0, lang_code = 0, lang_comments = 0,
      lang_docs = 0, lang_blank = 0\<rparr>"

definition lang_add :: "FileStats \<Rightarrow> lang_row \<Rightarrow> lang_row" where
  "lang_add f r =
     \<lparr>lang_files = lang_files r + 1,
      lang_total = lang_total r + total_lines f,
      lang_code = lang_code r + code_lines f,
      lang_comments = lang_comments r + comment_lines f,
      lang_docs = lang_docs r + docstring_lines f,
      lang_blank = lang_blank r + blank_lines f\<rparr>"

text \<open>
  The body of the inner loop. \<open>is_source p\<close> stands for the test
  \<open>Path(p).suffix.lower() in SOURCE_EXTENSIONS\<close> of the standard library; a key that is
  absent from the \<open>defaultdict\<close> starts from the default row.
\<close>

definition lang_stats_step ::
  "(pystr \<Rightarrow> bool) \<Rightarrow> (pystr \<rightharpoonup> lang_row) \<Rightarrow> FileStats \<Rightarrow> (pystr \<rightharpoonup> lang_row)" where
  "lang_stats_step is_source m f =
     (if \<not> is_source (path f) then m
      else
        (let lang = language f;
             row = (case m lang of None \<Rightarrow> lang_default | Some r \<Rightarrow> r)
         in m(lang \<mapsto> lang_add f row)))"

text \<open>The argument is \<open>platforms.values()\<close>, in the order of the dictionary.\<close>

definition lang_stats ::
  "(pystr \<Rightarrow> bool) \<Rightarrow> PlatformStats list \<Rightarrow> (pystr \<rightharpoonup> lang_row)" where
  "lang_stats is_source platforms =
     foldl (lang_stats_step is_source) Map.empty (concat (map files platforms))"

section \<open>main\<close>

text \<open>
  \<open>main\<close> after \<open>parse_args\<close>, as the sequence of its effects. The file system and the
  tree walk are an environment: \<open>abspath\<close>, \<open>isdir\<close>, and the dictionary that
  \<open>walk_project\<close> returns as an association list. What the reports print is one opaque
  value for each report. \<open>sys.exit\<close> ends the sequence.
\<close>

record args =
  arg_root :: pystr
  arg_top :: int
  arg_json :: bool
  arg_markdown :: "pystr option"

record world =
  abspath :: "pystr \<Rightarrow> pystr"
  isdir :: "pystr \<Rightarrow> bool"
  walk_project :: "pystr \<Rightarrow> (pystr \<times> PlatformStats) list"

datatype printed =
    No_source_files
  | Markdown_document
  | Markdown_written pystr
  | Json_document
  | Terminal_report
  | Empty_line

datatype event =
    Stderr pystr
  | Stdout printed
  | Walk pystr
  | Write_file pystr
  | Exit int

definition main :: "world \<Rightarrow> args \<Rightarrow> event list" where
  "main w a =
     (let root = abspath w (arg_root a) in
      if \<not> isdir w root
      then [Stderr (ascii ''Error: '' @ root @ ascii '' is not a directory''), Exit 1]
      else
        (let platforms = walk_project w root in
         [Walk root] @
         (if platforms = [] then [Stdout No_source_files, Exit 0]
          else
            (case arg_markdown a of
               Some m \<Rightarrow>
                 if m = ascii ''-'' then [Stdout Markdown_document]
                 else [Write_file (abspath w m), Stdout (Markdown_written (abspath w m))]
             | None \<Rightarrow>
                 if arg_json a then [Stdout Json_document] else [Stdout Terminal_report])
            @ [Stdout Empty_line])))"

section \<open>Notions of the specification\<close>

text \<open>The sum of the four category counters of a record.\<close>

definition counted :: "FileStats \<Rightarrow> int" where
  "counted s = code_lines s + comment_lines s + docstring_lines s + blank_lines s"

text \<open>The partition invariant of a record produced from \<open>lines\<close>.\<close>

definition is_partition :: "FileStats \<Rightarrow> pystr list \<Rightarrow> bool" where
  "is_partition s lines =
     (code_lines s + comment_lines s + docstring_lines s + blank_lines s = total_lines s
      \<and> total_lines s = int (length lines))"

definition all_zero :: "FileStats \<Rightarrow> bool" where
  "all_zero s =
     (total_lines s = 0 \<and> code_lines s = 0 \<and> comment_lines s = 0
      \<and> docstring_lines s = 0 \<and> blank_lines s = 0)"

text \<open>A line of whitespace only.\<close>

definition only_whitespace :: "pystr \<Rightarrow> bool" where
  "only_whitespace line = list_all py_isspace line"

text \<open>The Normal state of the brace-comment classifiers: no block is open.\<close>

definition normal :: "brace_state \<Rightarrow> bool" where
  "normal st = (\<not> in_block_comment st \<and> \<not> in_doc_block st)"

text \<open>
  The four line categories, and the opener precedence as the specification words it:
  doc-block, then plain-block, then doc-line, then line-comment, then code; the first
  match wins. The argument is the trimmed text of a non-blank line.
\<close>

datatype category = Code | Comment | Documentation | Blank

fun count_as :: "category \<Rightarrow> FileStats \<Rightarrow> FileStats" where
  "count_as Code s = inc_code s"
| "count_as Comment s = inc_comment s"
| "count_as Documentation s = inc_docstring s"
| "count_as Blank s = inc_blank s"

definition opener_category :: "pystr \<Rightarrow> category" where
  "opener_category s =
     (if startswith s (ascii ''/**'') then Documentation
      else if startswith s (ascii ''/*'') then Comment
      else if startswith s (ascii ''///'') then Documentation
      else if startswith s (ascii ''//'') then Comment
      else Code)"

text \<open>
  The state of the Python loop is well formed when an open docstring has its delimiter.
\<close>

definition python_ok :: "python_state \<Rightarrow> bool" where
  "python_ok st = (if in_docstring st then docstring_delimiter st \<noteq> None else True)"

text \<open>The number of lines of a list that are not blank.\<close>

definition nonblank_count :: "pystr list \<Rightarrow> int" where
  "nonblank_count lines = int (length (filter (\<lambda>l. strip l \<noteq> []) lines))"

text \<open>
  The row of one language as a sum: the files \<open>gs\<close> added to the row \<open>r\<close>.
\<close>

definition lang_sum :: "FileStats list \<Rightarrow> lang_row \<Rightarrow> lang_row" where
  "lang_sum gs r =
     \<lparr>lang_files = lang_files r + int (length gs),
      lang_total = lang_total r + sum_list (map total_lines gs),
      lang_code = lang_code r + sum_list (map code_lines gs),
      lang_comments = lang_comments r + sum_list (map comment_lines gs),
      lang_docs = lang_docs r + sum_list (map docstring_lines gs),
      lang_blank = lang_blank r + sum_list (map blank_lines gs)\<rparr>"

section \<open>The partition invariant\<close>

lemma counted_inc [simp]:
  "counted (inc_code s) = counted s + 1"
  "counted (inc_comment s) = counted s + 1"
  "counted (inc_docstring s) = counted s + 1"
  "counted (inc_blank s) = counted s + 1"
  by (simp_all add: counted_def inc_code_def inc_comment_def inc_docstring_def inc_blank_def)

lemma total_inc [simp]:
  "total_lines (inc_code s) = total_lines s"
  "total_lines (inc_comment s) = total_lines s"
  "total_lines (inc_docstring s) = total_lines s"
  "total_lines (inc_blank s) = total_lines s"
  by (simp_all add: inc_code_def inc_comment_def inc_docstring_def inc_blank_def)

lemma is_partition_iff:
  "is_partition s ls \<longleftrightarrow> counted s = total_lines s \<and> total_lines s = int (length ls)"
  by (simp add: is_partition_def counted_def)

lemma counted_new [simp]:
  "counted ((new_FileStats p l)\<lparr>total_lines := n\<rparr>) = 0"
  "total_lines ((new_FileStats p l)\<lparr>total_lines := n\<rparr>) = n"
  by (simp_all add: counted_def new_FileStats_def)

lemma swift_step_counted:
  "counted (stats (swift_step st l)) = counted (stats st) + 1 \<and>
   total_lines (stats (swift_step st l)) = total_lines (stats st)"
  by (simp add: swift_step_def Let_def)

lemma swift_loop_counted:
  "counted (stats (foldl swift_step st ls)) = counted (stats st) + int (length ls) \<and>
   total_lines (stats (foldl swift_step st ls)) = total_lines (stats st)"
  by (induction ls arbitrary: st) (simp_all add: swift_step_counted)

lemma swift_partition: "is_partition (classify_swift_lines ls) ls"
  by (simp add: is_partition_iff classify_swift_lines_def swift_loop_counted swift_init_def)

lemma kotlin_step_counted:
  "counted (stats (kotlin_step st l)) = counted (stats st) + 1 \<and>
   total_lines (stats (kotlin_step st l)) = total_lines (stats st)"
  by (simp add: kotlin_step_def Let_def)

lemma kotlin_loop_counted:
  "counted (stats (foldl kotlin_step st ls)) = counted (stats st) + int (length ls) \<and>
   total_lines (stats (foldl kotlin_step st ls)) = total_lines (stats st)"
  by (induction ls arbitrary: st) (simp_all add: kotlin_step_counted)

lemma kotlin_partition: "is_partition (classify_kotlin_lines ls) ls"
  by (simp add: is_partition_iff classify_kotlin_lines_def kotlin_loop_counted kotlin_init_def)

lemma xml_step_counted:
  "counted (stats (xml_step st l)) = counted (stats st) + 1 \<and>
   total_lines (stats (xml_step st l)) = total_lines (stats st)"
  by (simp add: xml_step_def Let_def)

lemma xml_loop_counted:
  "counted (stats (foldl xml_step st ls)) = counted (stats st) + int (length ls) \<and>
   total_lines (stats (foldl xml_step st ls)) = total_lines (stats st)"
  by (induction ls arbitrary: st) (simp_all add: xml_step_counted)

lemma xml_partition: "is_partition (classify_xml_lines ls) ls"
  by (simp add: is_partition_iff classify_xml_lines_def xml_loop_counted xml_init_def)

lemma markdown_loop_counted:
  "counted (foldl markdown_step s ls) = counted s + int (length ls) \<and>
   total_lines (foldl markdown_step s ls) = total_lines s"
  by (induction ls arbitrary: s) (simp_all add: markdown_step_def)

lemma markdown_partition: "is_partition (classify_markdown_lines ls) ls"
  by (simp add: is_partition_iff classify_markdown_lines_def markdown_loop_counted)

lemma yaml_loop_counted:
  "counted (foldl yaml_step s ls) = counted s + int (length ls) \<and>
   total_lines (foldl yaml_step s ls) = total_lines s"
  by (induction ls arbitrary: s) (simp_all add: yaml_step_def Let_def)

lemma yaml_partition: "is_partition (classify_yaml_lines ls) ls"
  by (simp add: is_partition_iff classify_yaml_lines_def yaml_loop_counted)

lemma generic_loop_counted:
  "counted (foldl generic_step s ls) = counted s + int (length ls) \<and>
   total_lines (foldl generic_step s ls) = total_lines s"
  by (induction ls arbitrary: s) (simp_all add: generic_step_def Let_def)

lemma generic_partition: "is_partition (classify_generic_lines ls lang) ls"
  by (simp add: is_partition_iff classify_generic_lines_def generic_loop_counted)

lemma python_step_counted:
  "python_step st l = Inr st' \<Longrightarrow>
   counted (stats st') = counted (stats st) + 1 \<and> total_lines (stats st') = total_lines (stats st)"
  by (auto simp add: python_step_def Let_def split: if_splits option.splits)

lemma python_step_total:
  "python_ok st \<Longrightarrow> \<exists>st'. python_step st l = Inr st' \<and> python_ok st'"
  by (auto simp add: python_step_def python_ok_def Let_def split: option.splits)

lemma python_loop_counted:
  "python_ok st \<Longrightarrow> \<exists>st'. python_loop st ls = Inr st' \<and> python_ok st' \<and>
     counted (stats st') = counted (stats st) + int (length ls) \<and>
     total_lines (stats st') = total_lines (stats st)"
proof (induction ls arbitrary: st)
  case Nil
  then show ?case by simp
next
  case (Cons l ls)
  from python_step_total [OF Cons.prems] obtain s1 where
    s1: "python_step st l = Inr s1" "python_ok s1" by blast
  from Cons.IH [OF s1(2)] obtain s2 where
    s2: "python_loop s1 ls = Inr s2" "python_ok s2"
        "counted (stats s2) = counted (stats s1) + int (length ls)"
        "total_lines (stats s2) = total_lines (stats s1)" by blast
  from python_step_counted [OF s1(1)] s1 s2 show ?case by simp
qed

lemma python_init_ok: "python_ok (python_init ls)"
  by (simp add: python_ok_def python_init_def)

lemma python_partition: "\<exists>s. classify_python_lines ls = Inr s \<and> is_partition s ls"
proof -
  from python_loop_counted [OF python_init_ok, of ls ls] obtain st' where
    "python_loop (python_init ls) ls = Inr st'"
    "counted (stats st') = counted (stats (python_init ls)) + int (length ls)"
    "total_lines (stats st') = total_lines (stats (python_init ls))" by blast
  then show ?thesis
    by (simp add: classify_python_lines_def is_partition_iff python_init_def)
qed

lemma empty_all_zero:
  "all_zero (classify_swift_lines [])"
  "all_zero (classify_kotlin_lines [])"
  "classify_python_lines [] = Inr s \<Longrightarrow> all_zero s"
  "all_zero (classify_xml_lines [])"
  "all_zero (classify_markdown_lines [])"
  "all_zero (classify_yaml_lines [])"
  "all_zero (classify_generic_lines [] lang)"
  by (auto simp add: all_zero_def classify_swift_lines_def swift_init_def classify_kotlin_lines_def
      kotlin_init_def classify_python_lines_def python_init_def classify_xml_lines_def xml_init_def
      classify_markdown_lines_def classify_yaml_lines_def classify_generic_lines_def new_FileStats_def)

text \<open>
  C1. Every classifier (Swift, Kotlin, Python, XML, Markdown, YAML, generic), on every
  sequence of lines, returns a record whose code, comment, documentation and blank
  counters sum to its total, which is the number of lines; the Python classifier never
  raises. On the empty sequence every counter is zero.
\<close>

theorem partition_invariant:
  "is_partition (classify_swift_lines ls) ls
   \<and> is_partition (classify_kotlin_lines ls) ls
   \<and> (\<exists>s. classify_python_lines ls = Inr s \<and> is_partition s ls)
   \<and> is_partition (classify_xml_lines ls) ls
   \<and> is_partition (classify_markdown_lines ls) ls
   \<and> is_partition (classify_yaml_lines ls) ls
   \<and> is_partition (classify_generic_lines ls lang) ls
   \<and> all_zero (classify_swift_lines [])
   \<and> all_zero (classify_kotlin_lines [])
   \<and> (\<exists>s. classify_python_lines [] = Inr s \<and> all_zero s)
   \<and> all_zero (classify_xml_lines [])
   \<and> all_zero (classify_markdown_lines [])
   \<and> all_zero (classify_yaml_lines [])
   \<and> all_zero (classify_generic_lines [] lang)"
  using swift_partition kotlin_partition python_partition xml_partition markdown_partition
    yaml_partition generic_partition empty_all_zero python_partition [of "[]"]
  by blast

section \<open>Blank lines\<close>

lemma strip_only_whitespace: "only_whitespace line \<Longrightarrow> strip line = []"
proof -
  assume "only_whitespace line"
  then have "\<forall>x\<in>set line. py_isspace x"
    by (simp add: only_whitespace_def list_all_iff)
  then show ?thesis
    by (auto simp add: strip_def dest: set_dropWhileD)
qed

lemma strip_Nil_only_whitespace: "strip line = [] \<Longrightarrow> only_whitespace line"
proof -
  assume "strip line = []"
  then have "\<forall>x\<in>set (dropWhile py_isspace line). py_isspace x"
    by (simp add: strip_def dropWhile_eq_Nil_conv)
  moreover have "dropWhile py_isspace line \<noteq> [] \<Longrightarrow> \<not> py_isspace (hd (dropWhile py_isspace line))"
    by (rule hd_dropWhile)
  ultimately have "dropWhile py_isspace line = []"
    by (cases "dropWhile py_isspace line") auto
  then have "\<forall>x\<in>set line. py_isspace x"
    by (induction line) (simp_all split: if_splits)
  then show ?thesis
    by (simp add: only_whitespace_def list_all_iff)
qed

text \<open>
  C2. In every classifier a line of whitespace only adds one to the blank counter and
  changes nothing else of the loop's state, whatever that state is: the flags of an open
  block comment, doc block or docstring stay as they were.
\<close>

theorem blank_priority:
  assumes "only_whitespace line"
  shows "swift_step st line = st\<lparr>stats := inc_blank (stats st)\<rparr>
    \<and> kotlin_step st line = st\<lparr>stats := inc_blank (stats st)\<rparr>
    \<and> python_step pst line = Inr (pst\<lparr>stats := inc_blank (stats pst)\<rparr>)
    \<and> xml_step xst line = xst\<lparr>stats := inc_blank (stats xst)\<rparr>
    \<and> markdown_step s line = inc_blank s
    \<and> yaml_step s line = inc_blank s
    \<and> generic_step s line = inc_blank s"
  using strip_only_whitespace [OF assms]
  by (simp add: swift_step_def kotlin_step_def python_step_def xml_step_def
      markdown_step_def yaml_step_def generic_step_def)

theorem blank_priority_witness:
  "only_whitespace [32, 9]
   \<and> swift_step \<lparr>stats = new_FileStats [] [], in_block_comment = False, in_doc_block = True\<rparr>
         [32, 9] =
       \<lparr>stats = inc_blank (new_FileStats [] []), in_block_comment = False, in_doc_block = True\<rparr>
   \<and> kotlin_step \<lparr>stats = new_FileStats [] [], in_block_comment = True, in_doc_block = False\<rparr>
         [32, 9] =
       \<lparr>stats = inc_blank (new_FileStats [] []), in_block_comment = True, in_doc_block = False\<rparr>
   \<and> python_step \<lparr>stats = new_FileStats [] [], in_docstring = True,
                      docstring_delimiter = Some triple_double\<rparr> [32, 9] =
       Inr \<lparr>stats = inc_blank (new_FileStats [] []), in_docstring = True,
            docstring_delimiter = Some triple_double\<rparr>
   \<and> xml_step \<lparr>stats = new_FileStats [] [], in_comment = True\<rparr> [32, 9] =
       \<lparr>stats = inc_blank (new_FileStats [] []), in_comment = True\<rparr>
   \<and> markdown_step (new_FileStats [] []) [32, 9] = inc_blank (new_FileStats [] [])"
proof -
  have h: "only_whitespace [32, 9]"
    by (simp add: only_whitespace_def py_isspace_def)
  from blank_priority [OF h,
      of "\<lparr>stats = new_FileStats [] [], in_block_comment = False, in_doc_block = True\<rparr>"
         "\<lparr>stats = new_FileStats [] [], in_docstring = True,
           docstring_delimiter = Some triple_double\<rparr>"
         "\<lparr>stats = new_FileStats [] [], in_comment = True\<rparr>"
         "new_FileStats [] []"]
    blank_priority [OF h,
      of "\<lparr>stats = new_FileStats [] [], in_block_comment = True, in_doc_block = False\<rparr>"]
    h
  show ?thesis by simp
qed

section \<open>Swift and Kotlin\<close>

lemma kotlin_step_eq: "kotlin_step = swift_step"
  by (rule ext, rule ext) (simp add: kotlin_step_def swift_step_def)

lemma language_inc [simp]:
  "(inc_code s)\<lparr>language := L\<rparr> = inc_code (s\<lparr>language := L\<rparr>)"
  "(inc_comment s)\<lparr>language := L\<rparr> = inc_comment (s\<lparr>language := L\<rparr>)"
  "(inc_docstring s)\<lparr>language := L\<rparr> = inc_docstring (s\<lparr>language := L\<rparr>)"
  "(inc_blank s)\<lparr>language := L\<rparr> = inc_blank (s\<lparr>language := L\<rparr>)"
  by (simp_all add: inc_code_def inc_comment_def inc_docstring_def inc_blank_def)

lemma swift_step_language:
  "swift_step (st\<lparr>stats := (stats st)\<lparr>language := L\<rparr>\<rparr>) l =
   (swift_step st l)\<lparr>stats := (stats (swift_step st l))\<lparr>language := L\<rparr>\<rparr>"
  by (simp add: swift_step_def Let_def)

lemma swift_loop_language:
  "foldl swift_step (st\<lparr>stats := (stats st)\<lparr>language := L\<rparr>\<rparr>) ls =
   (foldl swift_step st ls)\<lparr>stats := (stats (foldl swift_step st ls))\<lparr>language := L\<rparr>\<rparr>"
  by (induction ls arbitrary: st) (simp_all add: swift_step_language)

lemma kotlin_init_swift:
  "kotlin_init ls = (swift_init ls)\<lparr>stats := (stats (swift_init ls))\<lparr>language := ascii ''Kotlin''\<rparr>\<rparr>"
  by (simp add: kotlin_init_def swift_init_def new_FileStats_def)

lemma classify_kotlin_swift:
  "classify_kotlin_lines ls = (classify_swift_lines ls)\<lparr>language := ascii ''Kotlin''\<rparr>"
  by (simp add: classify_kotlin_lines_def classify_swift_lines_def kotlin_step_eq
      kotlin_init_swift swift_loop_language)

lemma language_inc_sel [simp]:
  "language (inc_code s) = language s"
  "language (inc_comment s) = language s"
  "language (inc_docstring s) = language s"
  "language (inc_blank s) = language s"
  by (simp_all add: inc_code_def inc_comment_def inc_docstring_def inc_blank_def)

lemma swift_loop_language_sel:
  "language (stats (foldl swift_step st ls)) = language (stats st)"
  by (induction ls arbitrary: st) (simp_all add: swift_step_def Let_def)

text \<open>
  C8. On every sequence of lines the Swift and the Kotlin classifier return the same
  total, code, comment, docstring and blank counts (and the same empty path); the records
  differ in the language tag only, Swift against Kotlin.
\<close>

theorem swift_kotlin_same_counts:
  "total_lines (classify_kotlin_lines ls) = total_lines (classify_swift_lines ls)
   \<and> code_lines (classify_kotlin_lines ls) = code_lines (classify_swift_lines ls)
   \<and> comment_lines (classify_kotlin_lines ls) = comment_lines (classify_swift_lines ls)
   \<and> docstring_lines (classify_kotlin_lines ls) = docstring_lines (classify_swift_lines ls)
   \<and> blank_lines (classify_kotlin_lines ls) = blank_lines (classify_swift_lines ls)
   \<and> path (classify_kotlin_lines ls) = path (classify_swift_lines ls)
   \<and> language (classify_swift_lines ls) = ascii ''Swift''
   \<and> language (classify_kotlin_lines ls) = ascii ''Kotlin''
   \<and> classify_kotlin_lines ls = (classify_swift_lines ls)\<lparr>language := ascii ''Kotlin''\<rparr>"
proof -
  have "language (classify_swift_lines ls) = ascii ''Swift''"
    by (simp add: classify_swift_lines_def swift_loop_language_sel swift_init_def new_FileStats_def)
  then show ?thesis
    by (simp add: classify_kotlin_swift)
qed

section \<open>Openers of the brace-comment classifiers\<close>

lemma ascii_openers:
  "ascii ''/**'' = [47, 42, 42]"
  "ascii ''/*'' = [47, 42]"
  "ascii ''///'' = [47, 47, 47]"
  "ascii ''//'' = [47, 47]"
  "ascii ''*/'' = [42, 47]"
  by (simp_all add: ascii_def)

lemma startswith_Nil [simp]: "startswith [] p = (p = [])"
  by (auto simp add: startswith_def)

lemma startswith_empty [simp]: "startswith s []"
  by (simp add: startswith_def)

lemma startswith_Cons:
  "startswith s (c # p) = (case s of [] \<Rightarrow> False | d # t \<Rightarrow> d = c \<and> startswith t p)"
  by (cases s) (auto simp add: startswith_def)

lemma doc_block_is_block: "startswith s (ascii ''/**'') \<Longrightarrow> startswith s (ascii ''/*'')"
  by (auto simp add: ascii_openers startswith_Cons split: list.splits)

lemma doc_line_is_line: "startswith s (ascii ''///'') \<Longrightarrow> startswith s (ascii ''//'')"
  by (auto simp add: ascii_openers startswith_Cons split: list.splits)

lemma line_not_block: "startswith s (ascii ''//'') \<Longrightarrow> \<not> startswith s (ascii ''/*'')"
  by (auto simp add: ascii_openers startswith_Cons split: list.splits)

lemma swift_step_normal:
  "normal st \<Longrightarrow> strip line \<noteq> [] \<Longrightarrow>
   stats (swift_step st line) = count_as (opener_category (strip line)) (stats st)"
  by (simp add: normal_def swift_step_def opener_category_def Let_def)

lemma kotlin_step_normal:
  "normal st \<Longrightarrow> strip line \<noteq> [] \<Longrightarrow>
   stats (kotlin_step st line) = count_as (opener_category (strip line)) (stats st)"
  by (simp add: normal_def kotlin_step_def opener_category_def Let_def)

lemma opener_category_cases:
  "startswith s (ascii ''/**'') \<Longrightarrow> opener_category s = Documentation"
  "startswith s (ascii ''/*'') \<Longrightarrow> \<not> startswith s (ascii ''/**'') \<Longrightarrow> opener_category s = Comment"
  "startswith s (ascii ''///'') \<Longrightarrow> opener_category s = Documentation"
  "startswith s (ascii ''//'') \<Longrightarrow> \<not> startswith s (ascii ''///'') \<Longrightarrow> opener_category s = Comment"
  "\<not> startswith s (ascii ''/*'') \<Longrightarrow> \<not> startswith s (ascii ''//'') \<Longrightarrow> opener_category s = Code"
  using doc_block_is_block [of s] doc_line_is_line [of s] line_not_block [of s]
  by (auto simp add: opener_category_def)

lemma comment_lines_inc [simp]:
  "comment_lines (inc_docstring s) = comment_lines s"
  "comment_lines (inc_code s) = comment_lines s"
  "comment_lines (inc_blank s) = comment_lines s"
  "comment_lines (inc_comment s) = comment_lines s + 1"
  by (simp_all add: inc_code_def inc_comment_def inc_docstring_def inc_blank_def)

text \<open>
  C5. In the Normal state a non-blank line is counted in the category of the first
  opener that matches its trimmed text, in the order doc-block, plain-block, doc-line,
  line-comment, code, in the Swift and in the Kotlin classifier. So a line that starts
  with the doc-block opener is counted Documentation and leaves the comment counter as it
  was, and so does a line that starts with the doc-line marker; a plain block opener that
  is no doc-block opener, and a line-comment marker that is no doc-line marker, are
  counted Comment; a line with neither a block opener nor a line marker is counted Code.
\<close>

theorem opener_precedence:
  assumes "normal st" and "strip line \<noteq> []"
  shows "stats (swift_step st line) = count_as (opener_category (strip line)) (stats st)
    \<and> stats (kotlin_step st line) = count_as (opener_category (strip line)) (stats st)
    \<and> (startswith (strip line) (ascii ''/**'') \<longrightarrow>
          stats (swift_step st line) = inc_docstring (stats st)
          \<and> comment_lines (stats (swift_step st line)) = comment_lines (stats st))
    \<and> (startswith (strip line) (ascii ''/*'') \<and> \<not> startswith (strip line) (ascii ''/**'') \<longrightarrow>
          stats (swift_step st line) = inc_comment (stats st))
    \<and> (startswith (strip line) (ascii ''///'') \<longrightarrow>
          stats (swift_step st line) = inc_docstring (stats st)
          \<and> comment_lines (stats (swift_step st line)) = comment_lines (stats st))
    \<and> (startswith (strip line) (ascii ''//'') \<and> \<not> startswith (strip line) (ascii ''///'') \<longrightarrow>
          stats (swift_step st line) = inc_comment (stats st))
    \<and> (\<not> startswith (strip line) (ascii ''/*'') \<and> \<not> startswith (strip line) (ascii ''//'') \<longrightarrow>
          stats (swift_step st line) = inc_code (stats st))"
  using opener_category_cases [of "strip line"]
  by (simp add: swift_step_normal [OF assms] kotlin_step_normal [OF assms])

lemma swift_step_doc_closed:
  "normal st \<Longrightarrow> startswith (strip line) (ascii ''/**'') \<Longrightarrow>
   py_in (ascii ''*/'') (drop 3 (strip line)) \<Longrightarrow>
   swift_step st line = st\<lparr>stats := inc_docstring (stats st)\<rparr>"
  by (cases "strip line = []") (auto simp add: normal_def swift_step_def Let_def ascii_openers)

lemma swift_step_block_closed:
  "normal st \<Longrightarrow> startswith (strip line) (ascii ''/*'') \<Longrightarrow>
   \<not> startswith (strip line) (ascii ''/**'') \<Longrightarrow>
   py_in (ascii ''*/'') (drop 2 (strip line)) \<Longrightarrow>
   swift_step st line = st\<lparr>stats := inc_comment (stats st)\<rparr>"
  by (cases "strip line = []") (auto simp add: normal_def swift_step_def Let_def ascii_openers)

text \<open>
  C3 as amended. In the Normal state, a line whose trimmed text starts with the doc-block
  opener and has the closer in the rest after these three characters is counted once, as
  Documentation; a line that starts with the plain block opener, not with the doc-block
  opener, and has the closer in the rest after these two characters is counted once, as
  Comment. In both cases nothing else of the state changes, so the classifier is in the
  Normal state for the lines that follow. Swift and Kotlin alike.
\<close>

theorem single_line_block_collapse:
  assumes "normal st"
  shows "(startswith (strip line) (ascii ''/**'') \<and> py_in (ascii ''*/'') (drop 3 (strip line)) \<longrightarrow>
            swift_step st line = st\<lparr>stats := inc_docstring (stats st)\<rparr>
            \<and> kotlin_step st line = st\<lparr>stats := inc_docstring (stats st)\<rparr>
            \<and> normal (swift_step st line) \<and> normal (kotlin_step st line))
       \<and> (startswith (strip line) (ascii ''/*'') \<and> \<not> startswith (strip line) (ascii ''/**'')
            \<and> py_in (ascii ''*/'') (drop 2 (strip line)) \<longrightarrow>
            swift_step st line = st\<lparr>stats := inc_comment (stats st)\<rparr>
            \<and> kotlin_step st line = st\<lparr>stats := inc_comment (stats st)\<rparr>
            \<and> normal (swift_step st line) \<and> normal (kotlin_step st line))"
proof -
  have k: "kotlin_step st line = swift_step st line"
    by (simp add: kotlin_step_def swift_step_def)
  have n: "normal (st\<lparr>stats := x\<rparr>)" for x
    using assms by (simp add: normal_def)
  show ?thesis
    using swift_step_doc_closed [OF assms, of line] swift_step_block_closed [OF assms, of line]
    by (auto simp add: k n)
qed

lemma line_doc_open: "strip (ascii ''/**/'') = [47, 42, 42, 47]"
  by (simp add: ascii_def strip_def py_isspace_def)

lemma line_x: "strip (ascii ''x'') = [120]"
  by (simp add: ascii_def strip_def py_isspace_def)

text \<open>
  C3 as stated fails at the line \<open>/**/\<close>: its trimmed text starts with the doc-block
  opener (and with the plain block opener) and contains the closer, even after the first
  two characters, yet the Swift classifier stays inside an open doc block and counts the
  next line, \<open>x\<close>, as Documentation too.
\<close>

theorem single_line_block_collapse_counterexample:
  "normal (swift_init [ascii ''/**/'', ascii ''x''])
   \<and> startswith (strip (ascii ''/**/'')) (ascii ''/**'')
   \<and> startswith (strip (ascii ''/**/'')) (ascii ''/*'')
   \<and> py_in (ascii ''*/'') (strip (ascii ''/**/''))
   \<and> py_in (ascii ''*/'') (drop 2 (strip (ascii ''/**/'')))
   \<and> \<not> normal (swift_step (swift_init [ascii ''/**/'', ascii ''x'']) (ascii ''/**/''))
   \<and> in_doc_block (swift_step (swift_init [ascii ''/**/'', ascii ''x'']) (ascii ''/**/''))
   \<and> code_lines (classify_swift_lines [ascii ''/**/'', ascii ''x'']) = 0
   \<and> docstring_lines (classify_swift_lines [ascii ''/**/'', ascii ''x'']) = 2"
  by (simp add: line_doc_open line_x ascii_openers startswith_def normal_def swift_init_def
      swift_step_def classify_swift_lines_def new_FileStats_def inc_docstring_def Let_def)

lemma normal_swift_init: "normal (swift_init ls)"
  by (simp add: normal_def swift_init_def)

theorem single_line_block_collapse_witness:
  "normal (swift_init [])
   \<and> startswith (strip (ascii ''/** one-liner */'')) (ascii ''/**'')
   \<and> py_in (ascii ''*/'') (drop 3 (strip (ascii ''/** one-liner */'')))
   \<and> swift_step (swift_init []) (ascii ''/** one-liner */'') =
       (swift_init [])\<lparr>stats := inc_docstring (stats (swift_init []))\<rparr>
   \<and> startswith (strip (ascii ''/* c */ f()'')) (ascii ''/*'')
   \<and> \<not> startswith (strip (ascii ''/* c */ f()'')) (ascii ''/**'')
   \<and> py_in (ascii ''*/'') (drop 2 (strip (ascii ''/* c */ f()'')))
   \<and> kotlin_step (swift_init []) (ascii ''/* c */ f()'') =
       (swift_init [])\<lparr>stats := inc_comment (stats (swift_init []))\<rparr>"
proof -
  have a: "startswith (strip (ascii ''/** one-liner */'')) (ascii ''/**'')
      \<and> py_in (ascii ''*/'') (drop 3 (strip (ascii ''/** one-liner */'')))"
    by (simp add: ascii_def strip_def py_isspace_def startswith_def)
  have b: "startswith (strip (ascii ''/* c */ f()'')) (ascii ''/*'')
      \<and> \<not> startswith (strip (ascii ''/* c */ f()'')) (ascii ''/**'')
      \<and> py_in (ascii ''*/'') (drop 2 (strip (ascii ''/* c */ f()'')))"
    by (simp add: ascii_def strip_def py_isspace_def startswith_def)
  note n = normal_swift_init [of "[]"]
  from single_line_block_collapse [OF n, of "ascii ''/** one-liner */''"]
    single_line_block_collapse [OF n, of "ascii ''/* c */ f()''"] a b n
  show ?thesis by blast
qed

text \<open>
  C9. In the Normal state a line whose trimmed text is exactly \<open>/**/\<close> is counted
  Documentation and leaves the classifier inside an open doc block: the rest after the
  opener is \<open>/\<close>, where the closer does not occur. So the two lines \<open>/**/\<close> and \<open>x\<close>
  give documentation 2 and code 0, in the Swift and in the Kotlin classifier.
\<close>

theorem empty_block_opens_doc:
  assumes "normal st" and "strip line = ascii ''/**/''"
  shows "swift_step st line = st\<lparr>in_doc_block := True, stats := inc_docstring (stats st)\<rparr>
    \<and> kotlin_step st line = st\<lparr>in_doc_block := True, stats := inc_docstring (stats st)\<rparr>
    \<and> \<not> py_in (ascii ''*/'') (drop 3 (strip line))
    \<and> docstring_lines (classify_swift_lines [ascii ''/**/'', ascii ''x'']) = 2
    \<and> code_lines (classify_swift_lines [ascii ''/**/'', ascii ''x'']) = 0
    \<and> docstring_lines (classify_kotlin_lines [ascii ''/**/'', ascii ''x'']) = 2
    \<and> code_lines (classify_kotlin_lines [ascii ''/**/'', ascii ''x'']) = 0"
proof -
  have s: "strip line = [47, 42, 42, 47]"
    using assms(2) by (simp add: ascii_def)
  have 1: "swift_step st line = st\<lparr>in_doc_block := True, stats := inc_docstring (stats st)\<rparr>"
    using assms(1) by (simp add: s normal_def swift_step_def Let_def ascii_openers startswith_def)
  have 2: "kotlin_step st line = st\<lparr>in_doc_block := True, stats := inc_docstring (stats st)\<rparr>"
    using assms(1) by (simp add: s normal_def kotlin_step_def Let_def ascii_openers startswith_def)
  have 3: "\<not> py_in (ascii ''*/'') (drop 3 (strip line))"
    by (simp add: s ascii_openers startswith_def)
  have 4: "docstring_lines (classify_swift_lines [ascii ''/**/'', ascii ''x'']) = 2
      \<and> code_lines (classify_swift_lines [ascii ''/**/'', ascii ''x'']) = 0"
    by (simp add: line_doc_open line_x ascii_openers startswith_def swift_init_def
        swift_step_def classify_swift_lines_def new_FileStats_def inc_docstring_def Let_def)
  have 5: "docstring_lines (classify_kotlin_lines [ascii ''/**/'', ascii ''x'']) = 2
      \<and> code_lines (classify_kotlin_lines [ascii ''/**/'', ascii ''x'']) = 0"
    by (simp add: line_doc_open line_x ascii_openers startswith_def kotlin_init_def
        kotlin_step_def classify_kotlin_lines_def new_FileStats_def inc_docstring_def Let_def)
  from 1 2 3 4 5 show ?thesis by blast
qed

theorem empty_block_opens_doc_witness:
  "normal (swift_init [ascii '' /**/ '', ascii ''x''])
   \<and> strip (ascii '' /**/ '') = ascii ''/**/''
   \<and> in_doc_block (swift_step (swift_init [ascii '' /**/ '', ascii ''x'']) (ascii '' /**/ ''))
   \<and> docstring_lines
        (stats (swift_step (swift_init [ascii '' /**/ '', ascii ''x'']) (ascii '' /**/ ''))) = 1"
proof -
  have a: "strip (ascii '' /**/ '') = ascii ''/**/''"
    by (simp add: ascii_def strip_def py_isspace_def)
  have b: "docstring_lines (inc_docstring (stats (swift_init [ascii '' /**/ '', ascii ''x'']))) = 1"
    by (simp add: inc_docstring_def swift_init_def new_FileStats_def)
  note n = normal_swift_init [of "[ascii '' /**/ '', ascii ''x'']"]
  from empty_block_opens_doc [OF n a] a b n
  show ?thesis by simp
qed

theorem opener_precedence_witness:
  "normal (swift_init []) \<and> strip (ascii ''/** a'') \<noteq> []
   \<and> startswith (strip (ascii ''/** a'')) (ascii ''/**'')
   \<and> stats (swift_step (swift_init []) (ascii ''/** a'')) = inc_docstring (stats (swift_init []))
   \<and> startswith (strip (ascii ''/* a'')) (ascii ''/*'')
   \<and> \<not> startswith (strip (ascii ''/* a'')) (ascii ''/**'')
   \<and> stats (swift_step (swift_init []) (ascii ''/* a'')) = inc_comment (stats (swift_init []))
   \<and> startswith (strip (ascii ''/// a'')) (ascii ''///'')
   \<and> stats (swift_step (swift_init []) (ascii ''/// a'')) = inc_docstring (stats (swift_init []))
   \<and> startswith (strip (ascii ''// a'')) (ascii ''//'')
   \<and> \<not> startswith (strip (ascii ''// a'')) (ascii ''///'')
   \<and> stats (swift_step (swift_init []) (ascii ''// a'')) = inc_comment (stats (swift_init []))
   \<and> \<not> startswith (strip (ascii ''a / b'')) (ascii ''/*'')
   \<and> \<not> startswith (strip (ascii ''a / b'')) (ascii ''//'')
   \<and> stats (swift_step (swift_init []) (ascii ''a / b'')) = inc_code (stats (swift_init []))"
proof -
  have a: "strip (ascii ''/** a'') \<noteq> [] \<and> startswith (strip (ascii ''/** a'')) (ascii ''/**'')"
    by (simp add: ascii_def strip_def py_isspace_def startswith_def)
  have b: "strip (ascii ''/* a'') \<noteq> [] \<and> startswith (strip (ascii ''/* a'')) (ascii ''/*'')
      \<and> \<not> startswith (strip (ascii ''/* a'')) (ascii ''/**'')"
    by (simp add: ascii_def strip_def py_isspace_def startswith_def)
  have c: "strip (ascii ''/// a'') \<noteq> [] \<and> startswith (strip (ascii ''/// a'')) (ascii ''///'')"
    by (simp add: ascii_def strip_def py_isspace_def startswith_def)
  have d: "strip (ascii ''// a'') \<noteq> [] \<and> startswith (strip (ascii ''// a'')) (ascii ''//'')
      \<and> \<not> startswith (strip (ascii ''// a'')) (ascii ''///'')"
    by (simp add: ascii_def strip_def py_isspace_def startswith_def)
  have e: "strip (ascii ''a / b'') \<noteq> [] \<and> \<not> startswith (strip (ascii ''a / b'')) (ascii ''/*'')
      \<and> \<not> startswith (strip (ascii ''a / b'')) (ascii ''//'')"
    by (simp add: ascii_def strip_def py_isspace_def startswith_def)
  note n = normal_swift_init [of "[]"]
  note c3 = conjunct2 [THEN conjunct2, THEN conjunct1]
  note c4 = conjunct2 [THEN conjunct2, THEN conjunct2, THEN conjunct1]
  note c5 = conjunct2 [THEN conjunct2, THEN conjunct2, THEN conjunct2, THEN conjunct1]
  note c6 = conjunct2 [THEN conjunct2, THEN conjunct2, THEN conjunct2, THEN conjunct2,
      THEN conjunct1]
  note c7 = conjunct2 [THEN conjunct2, THEN conjunct2, THEN conjunct2, THEN conjunct2,
      THEN conjunct2]
  have A: "stats (swift_step (swift_init []) (ascii ''/** a'')) = inc_docstring (stats (swift_init []))"
    using opener_precedence [OF n conjunct1 [OF a], THEN c3] a by (elim impE conjE) assumption+
  have B: "stats (swift_step (swift_init []) (ascii ''/* a'')) = inc_comment (stats (swift_init []))"
    using opener_precedence [OF n conjunct1 [OF b], THEN c4] b by (elim impE conjE) simp_all
  have C: "stats (swift_step (swift_init []) (ascii ''/// a'')) = inc_docstring (stats (swift_init []))"
    using opener_precedence [OF n conjunct1 [OF c], THEN c5] c by (elim impE conjE) assumption+
  have D: "stats (swift_step (swift_init []) (ascii ''// a'')) = inc_comment (stats (swift_init []))"
    using opener_precedence [OF n conjunct1 [OF d], THEN c6] d by (elim impE conjE) simp_all
  have E: "stats (swift_step (swift_init []) (ascii ''a / b'')) = inc_code (stats (swift_init []))"
    using opener_precedence [OF n conjunct1 [OF e], THEN c7] e by (elim impE conjE) simp_all
  show ?thesis
    using n a b c d e by (simp add: A B C D E)
qed

section \<open>Docstring delimiters of the Python classifier\<close>

lemma other_delimiter_absent:
  "\<not> py_in triple_double triple_single" "\<not> py_in triple_single triple_double"
  by (simp_all add: triple_double_def triple_single_def startswith_def)

lemma delimiter_nonempty:
  "triple_double \<noteq> []" "triple_single \<noteq> []"
  by (simp_all add: triple_double_def triple_single_def)

lemma python_step_open:
  assumes "d = triple_double \<or> d = triple_single"
    and "\<not> in_docstring st" and "startswith (strip line) d"
    and "\<not> (py_count (strip line) d \<ge> 2 \<and> length (strip line) > 3)"
  shows "python_step st line =
    Inr (st\<lparr>in_docstring := True, docstring_delimiter := Some d,
            stats := inc_docstring (stats st)\<rparr>)"
proof -
  have "length d = 3"
    using assms(1) by (auto simp add: triple_double_def triple_single_def)
  with assms(3) have t: "take 3 (strip line) = d"
    by (simp add: startswith_def)
  from assms(1,3) have n: "strip line \<noteq> []"
    by (auto simp add: startswith_def triple_double_def triple_single_def)
  from assms(1,3) have s: "startswith (strip line) triple_double \<or> startswith (strip line) triple_single"
    by auto
  show ?thesis
    using assms(2,4) n s by (auto simp add: python_step_def Let_def t)
qed

lemma python_step_inside:
  assumes "in_docstring st" and "docstring_delimiter st = Some d" and "strip line \<noteq> []"
  shows "python_step st line =
    Inr (if py_in d (strip line)
         then st\<lparr>stats := inc_docstring (stats st), in_docstring := False,
                 docstring_delimiter := None\<rparr>
         else st\<lparr>stats := inc_docstring (stats st)\<rparr>)"
  using assms by (simp add: python_step_def Let_def)

lemma python_loop_stays_open:
  assumes "in_docstring st" and "docstring_delimiter st = Some d"
    and "\<forall>l\<in>set body. \<not> py_in d (strip l)"
  shows "\<exists>st'. python_loop st body = Inr st' \<and> in_docstring st'
     \<and> docstring_delimiter st' = Some d
     \<and> docstring_lines (stats st') = docstring_lines (stats st) + nonblank_count body
     \<and> code_lines (stats st') = code_lines (stats st)
     \<and> comment_lines (stats st') = comment_lines (stats st)"
  using assms
proof (induction body arbitrary: st)
  case Nil
  then show ?case by (simp add: nonblank_count_def)
next
  case (Cons l body)
  define s1 where "s1 = (if strip l = [] then st\<lparr>stats := inc_blank (stats st)\<rparr>
      else st\<lparr>stats := inc_docstring (stats st)\<rparr>)"
  have step: "python_step st l = Inr s1"
    using Cons.prems by (simp add: python_step_def Let_def s1_def)
  have s1: "in_docstring s1" "docstring_delimiter s1 = Some d"
    "docstring_lines (stats s1) = docstring_lines (stats st) + nonblank_count [l]"
    "code_lines (stats s1) = code_lines (stats st)"
    "comment_lines (stats s1) = comment_lines (stats st)"
    using Cons.prems
    by (simp_all add: s1_def nonblank_count_def inc_blank_def inc_docstring_def)
  from Cons.prems have "\<forall>l\<in>set body. \<not> py_in d (strip l)" by simp
  from Cons.IH [OF s1(1,2) this] obtain s2 where
    s2: "python_loop s1 body = Inr s2" "in_docstring s2" "docstring_delimiter s2 = Some d"
      "docstring_lines (stats s2) = docstring_lines (stats s1) + nonblank_count body"
      "code_lines (stats s2) = code_lines (stats s1)"
      "comment_lines (stats s2) = comment_lines (stats s1)"
    by blast
  have "nonblank_count (l # body) = nonblank_count [l] + nonblank_count body"
    by (simp add: nonblank_count_def)
  with step s1 s2 show ?case by simp
qed

text \<open>
  C4. Let \<open>d\<close> be one of the two triple-quote delimiters and \<open>other\<close> the other one.
  A line that starts with \<open>d\<close> and is no single-line docstring opens a docstring that
  remembers \<open>d\<close>, and is counted Documentation. Inside a docstring opened by \<open>d\<close>, a
  line whose trimmed text is \<open>other\<close> is counted Documentation and leaves the docstring
  open, with \<open>d\<close> still remembered; a non-blank line is counted Documentation and closes
  the docstring exactly when it contains \<open>d\<close>; and any run of lines none of which
  contains \<open>d\<close> leaves the docstring open, each non-blank one counted Documentation.
\<close>

theorem delimiter_fidelity:
  assumes "d = triple_double \<and> other = triple_single \<or> d = triple_single \<and> other = triple_double"
  shows "(\<not> in_docstring st0 \<and> startswith (strip line0) d
           \<and> \<not> (py_count (strip line0) d \<ge> 2 \<and> length (strip line0) > 3) \<longrightarrow>
            python_step st0 line0 =
              Inr (st0\<lparr>in_docstring := True, docstring_delimiter := Some d,
                       stats := inc_docstring (stats st0)\<rparr>))
    \<and> (in_docstring st \<and> docstring_delimiter st = Some d \<and> strip line = other \<longrightarrow>
            python_step st line = Inr (st\<lparr>stats := inc_docstring (stats st)\<rparr>))
    \<and> (in_docstring st \<and> docstring_delimiter st = Some d \<and> strip line \<noteq> [] \<longrightarrow>
            python_step st line =
              Inr (if py_in d (strip line)
                   then st\<lparr>stats := inc_docstring (stats st), in_docstring := False,
                           docstring_delimiter := None\<rparr>
                   else st\<lparr>stats := inc_docstring (stats st)\<rparr>))
    \<and> (in_docstring st \<and> docstring_delimiter st = Some d
         \<and> (\<forall>l\<in>set body. \<not> py_in d (strip l)) \<longrightarrow>
            (\<exists>st'. python_loop st body = Inr st' \<and> in_docstring st'
               \<and> docstring_delimiter st' = Some d
               \<and> docstring_lines (stats st') = docstring_lines (stats st) + nonblank_count body
               \<and> code_lines (stats st') = code_lines (stats st)
               \<and> comment_lines (stats st') = comment_lines (stats st)))"
proof -
  from assms have d: "d = triple_double \<or> d = triple_single" by blast
  from assms have o: "\<not> py_in d other" "other \<noteq> []"
    using other_delimiter_absent delimiter_nonempty by auto
  have 1: "\<not> in_docstring st0 \<and> startswith (strip line0) d
           \<and> \<not> (py_count (strip line0) d \<ge> 2 \<and> length (strip line0) > 3) \<longrightarrow>
            python_step st0 line0 =
              Inr (st0\<lparr>in_docstring := True, docstring_delimiter := Some d,
                       stats := inc_docstring (stats st0)\<rparr>)"
    using python_step_open [OF d, of st0 line0] by blast
  have 2: "in_docstring st \<and> docstring_delimiter st = Some d \<and> strip line = other \<longrightarrow>
            python_step st line = Inr (st\<lparr>stats := inc_docstring (stats st)\<rparr>)"
    using python_step_inside [of st d line] o by auto
  have 3: "in_docstring st \<and> docstring_delimiter st = Some d \<and> strip line \<noteq> [] \<longrightarrow>
            python_step st line =
              Inr (if py_in d (strip line)
                   then st\<lparr>stats := inc_docstring (stats st), in_docstring := False,
                           docstring_delimiter := None\<rparr>
                   else st\<lparr>stats := inc_docstring (stats st)\<rparr>)"
    using python_step_inside [of st d line] by blast
  have 4: "in_docstring st \<and> docstring_delimiter st = Some d
         \<and> (\<forall>l\<in>set body. \<not> py_in d (strip l)) \<longrightarrow>
            (\<exists>st'. python_loop st body = Inr st' \<and> in_docstring st'
               \<and> docstring_delimiter st' = Some d
               \<and> docstring_lines (stats st') = docstring_lines (stats st) + nonblank_count body
               \<and> code_lines (stats st') = code_lines (stats st)
               \<and> comment_lines (stats st') = comment_lines (stats st))"
    using python_loop_stays_open [of st d body] by blast
  from 1 2 3 4 show ?thesis by (intro conjI)
qed

lemma strip_delimiters:
  "strip triple_double = triple_double" "strip triple_single = triple_single"
  "strip (ascii ''x'') = [120]"
  by (simp_all add: strip_def triple_double_def triple_single_def py_isspace_def ascii_def)

lemma count_delimiter_itself: "py_count triple_double triple_double = 1"
  by (simp add: py_count.simps [of "[34, 34, 34]"] py_count.simps [of "[]"]
      triple_double_def startswith_def)

theorem delimiter_fidelity_witness:
  "(let opened = (python_init [])\<lparr>in_docstring := True, docstring_delimiter := Some triple_double,
                                  stats := inc_docstring (stats (python_init []))\<rparr>
    in \<not> in_docstring (python_init [])
     \<and> startswith (strip triple_double) triple_double
     \<and> python_step (python_init []) triple_double = Inr opened
     \<and> in_docstring opened \<and> docstring_delimiter opened = Some triple_double
     \<and> python_step opened triple_single = Inr (opened\<lparr>stats := inc_docstring (stats opened)\<rparr>)
     \<and> py_in triple_double (strip triple_double)
     \<and> python_step opened triple_double =
         Inr (opened\<lparr>stats := inc_docstring (stats opened), in_docstring := False,
                     docstring_delimiter := None\<rparr>)
     \<and> (\<exists>st'. python_loop opened [triple_single, ascii ''x''] = Inr st' \<and> in_docstring st'
           \<and> docstring_delimiter st' = Some triple_double
           \<and> docstring_lines (stats st') = docstring_lines (stats opened) + 2))"
proof -
  define opened where "opened = (python_init [])\<lparr>in_docstring := True,
    docstring_delimiter := Some triple_double, stats := inc_docstring (stats (python_init []))\<rparr>"
  have d: "triple_double = triple_double \<and> triple_single = triple_single
      \<or> triple_double = triple_single \<and> triple_single = triple_double"
    by simp
  note df = delimiter_fidelity [OF d]
  have a: "\<not> in_docstring (python_init [])"
    by (simp add: python_init_def)
  have b: "startswith (strip triple_double) triple_double"
    by (simp add: strip_delimiters startswith_def)
  have c: "\<not> (py_count (strip triple_double) triple_double \<ge> 2 \<and> length (strip triple_double) > 3)"
    by (simp add: strip_delimiters count_delimiter_itself)
  have e: "in_docstring opened" "docstring_delimiter opened = Some triple_double"
    by (simp_all add: opened_def)
  have f: "py_in triple_double (strip triple_double)" "strip triple_double \<noteq> []"
    unfolding strip_delimiters by (simp_all add: triple_double_def startswith_def)
  have g: "\<forall>l\<in>set [triple_single, ascii ''x'']. \<not> py_in triple_double (strip l)"
    by (simp add: strip_delimiters, simp add: triple_double_def triple_single_def startswith_def)
  have h: "nonblank_count [triple_single, ascii ''x''] = 2"
    by (simp add: nonblank_count_def strip_delimiters, simp add: triple_single_def)
  have 1: "python_step (python_init []) triple_double = Inr opened"
    using df [THEN conjunct1, of "python_init []" triple_double] a b c
    by (simp add: opened_def)
  have 2: "python_step opened triple_single = Inr (opened\<lparr>stats := inc_docstring (stats opened)\<rparr>)"
    using df [THEN conjunct2, THEN conjunct1, of opened triple_single] e
    by (simp add: strip_delimiters)
  have 3: "python_step opened triple_double =
         Inr (opened\<lparr>stats := inc_docstring (stats opened), in_docstring := False,
                     docstring_delimiter := None\<rparr>)"
    using df [THEN conjunct2, THEN conjunct2, THEN conjunct1, of opened triple_double] e f
    by simp
  have 4: "\<exists>st'. python_loop opened [triple_single, ascii ''x''] = Inr st' \<and> in_docstring st'
           \<and> docstring_delimiter st' = Some triple_double
           \<and> docstring_lines (stats st') = docstring_lines (stats opened) + 2"
    using df [THEN conjunct2, THEN conjunct2, THEN conjunct2,
        of opened "[triple_single, ascii ''x'']"] e g h
    by auto
  from a b e f 1 2 3 4 show ?thesis
    unfolding Let_def opened_def [symmetric] by blast
qed

section \<open>Percentiles\<close>










section \<open>An invalid root directory\<close>

text \<open>
  C7. When the absolute path of the root argument is no directory, \<open>main\<close> writes the
  error message to standard error and exits with status 1, which is not zero: no tree
  walk, nothing on standard output and no file written. When it is a directory the walk
  of that path is the first effect.
\<close>

theorem invalid_root_is_fatal:
  "(\<not> isdir w (abspath w (arg_root a)) \<longrightarrow>
      main w a =
        [Stderr (ascii ''Error: '' @ abspath w (arg_root a) @ ascii '' is not a directory''),
         Exit 1]
      \<and> (\<forall>r. Walk r \<notin> set (main w a))
      \<and> (\<forall>x. Stdout x \<notin> set (main w a))
      \<and> (\<forall>f. Write_file f \<notin> set (main w a))
      \<and> last (main w a) = Exit 1 \<and> (1::int) \<noteq> 0)
   \<and> (isdir w (abspath w (arg_root a)) \<longrightarrow> hd (main w a) = Walk (abspath w (arg_root a)))"
  by (simp add: main_def Let_def)

theorem invalid_root_is_fatal_witness:
  "\<not> isdir \<lparr>abspath = (\<lambda>p. p), isdir = (\<lambda>p. p = ascii ''/repo''), walk_project = (\<lambda>p. [])\<rparr>
        (abspath \<lparr>abspath = (\<lambda>p. p), isdir = (\<lambda>p. p = ascii ''/repo''), walk_project = (\<lambda>p. [])\<rparr>
           (arg_root \<lparr>arg_root = ascii ''/nowhere'', arg_top = 20, arg_json = False,
                      arg_markdown = None\<rparr>))
   \<and> main \<lparr>abspath = (\<lambda>p. p), isdir = (\<lambda>p. p = ascii ''/repo''), walk_project = (\<lambda>p. [])\<rparr>
        \<lparr>arg_root = ascii ''/nowhere'', arg_top = 20, arg_json = False, arg_markdown = None\<rparr> =
       [Stderr (ascii ''Error: /nowhere is not a directory''), Exit 1]
   \<and> isdir \<lparr>abspath = (\<lambda>p. p), isdir = (\<lambda>p. p = ascii ''/repo''), walk_project = (\<lambda>p. [])\<rparr>
        (abspath \<lparr>abspath = (\<lambda>p. p), isdir = (\<lambda>p. p = ascii ''/repo''), walk_project = (\<lambda>p. [])\<rparr>
           (arg_root \<lparr>arg_root = ascii ''/repo'', arg_top = 20, arg_json = False,
                      arg_markdown = None\<rparr>))
   \<and> hd (main \<lparr>abspath = (\<lambda>p. p), isdir = (\<lambda>p. p = ascii ''/repo''), walk_project = (\<lambda>p. [])\<rparr>
        \<lparr>arg_root = ascii ''/repo'', arg_top = 20, arg_json = False, arg_markdown = None\<rparr>) =
       Walk (ascii ''/repo'')"
proof -
  define w where "w = \<lparr>abspath = (\<lambda>p::pystr. p), isdir = (\<lambda>p. p = ascii ''/repo''),
    walk_project = (\<lambda>p::pystr. [] :: (pystr \<times> PlatformStats) list)\<rparr>"
  define bad where "bad = \<lparr>arg_root = ascii ''/nowhere'', arg_top = 20, arg_json = False,
    arg_markdown = None\<rparr>"
  define good where "good = \<lparr>arg_root = ascii ''/repo'', arg_top = 20, arg_json = False,
    arg_markdown = None\<rparr>"
  have a: "\<not> isdir w (abspath w (arg_root bad))"
    by (simp add: w_def bad_def ascii_def)
  have b: "isdir w (abspath w (arg_root good))"
    by (simp add: w_def good_def)
  have m: "ascii ''Error: '' @ abspath w (arg_root bad) @ ascii '' is not a directory'' =
      ascii ''Error: /nowhere is not a directory''"
    by (simp add: w_def bad_def ascii_def)
  have r: "abspath w (arg_root good) = ascii ''/repo''"
    by (simp add: w_def good_def)
  have 1: "main w bad = [Stderr (ascii ''Error: /nowhere is not a directory''), Exit 1]"
    using invalid_root_is_fatal [of w bad, THEN conjunct1] a by (simp add: m)
  have 2: "hd (main w good) = Walk (ascii ''/repo'')"
    using invalid_root_is_fatal [of w good, THEN conjunct2] b by (simp add: r)
  from a b 1 2 show ?thesis
    unfolding w_def bad_def good_def by (intro conjI)
qed

section \<open>Aggregation\<close>

lemma sum_list_map_mset:
  fixes f :: "'a \<Rightarrow> int"
  assumes "mset xs = mset ys"
  shows "sum_list (map f xs) = sum_list (map f ys)"
proof -
  have "sum_list (map f xs) = sum_mset (image_mset f (mset xs))"
    by (simp flip: sum_mset_sum_list)
  also have "\<dots> = sum_mset (image_mset f (mset ys))"
    by (simp add: assms)
  also have "\<dots> = sum_list (map f ys)"
    by (simp flip: sum_mset_sum_list)
  finally show ?thesis .
qed

lemma sort_map_mset:
  fixes f :: "'a \<Rightarrow> int"
  assumes "mset xs = mset ys"
  shows "sort (map f xs) = sort (map f ys)"
proof (rule properties_for_sort)
  have "mset (map f xs) = image_mset f (mset xs)"
    by (rule mset_map)
  also have "\<dots> = image_mset f (mset ys)"
    by (simp only: assms)
  also have "\<dots> = mset (map f ys)"
    by (rule mset_map [symmetric])
  finally have "mset (map f xs) = mset (map f ys)" .
  then show "mset (sort (map f ys)) = mset (map f xs)" by simp
  show "sorted (sort (map f ys))" by simp
qed

lemma sum_list_concat_map:
  fixes f :: "FileStats \<Rightarrow> int"
  shows "sum_list (map (\<lambda>ps. sum_list (map f (files ps))) parts) =
    sum_list (map f (concat (map files parts)))"
  by (induction parts) simp_all

lemma length_concat_map:
  "sum_list (map (\<lambda>ps. int (length (files ps))) parts) =
    int (length (concat (map files parts)))"
  by (induction parts) simp_all

lemma lang_sum_Nil: "lang_sum [] r = r"
  by (simp add: lang_sum_def)

lemma lang_sum_Cons: "lang_sum (f # gs) r = lang_sum gs (lang_add f r)"
  by (simp add: lang_sum_def lang_add_def)

lemma lang_stats_fold:
  "foldl (lang_stats_step is_source) m fs L =
     (let gs = filter (\<lambda>f. is_source (path f) \<and> language f = L) fs
      in if gs = [] then m L
         else Some (lang_sum gs (case m L of None \<Rightarrow> lang_default | Some r \<Rightarrow> r)))"
proof (induction fs arbitrary: m)
  case Nil
  then show ?case by simp
next
  case (Cons f fs)
  let ?gs = "filter (\<lambda>f. is_source (path f) \<and> language f = L) fs"
  let ?row = "case m L of None \<Rightarrow> lang_default | Some r \<Rightarrow> r"
  let ?m' = "lang_stats_step is_source m f"
  have IH: "foldl (lang_stats_step is_source) ?m' fs L =
      (if ?gs = [] then ?m' L
       else Some (lang_sum ?gs (case ?m' L of None \<Rightarrow> lang_default | Some r \<Rightarrow> r)))"
    using Cons.IH [of ?m'] by (simp only: Let_def)
  show ?case
  proof (cases "is_source (path f) \<and> language f = L")
    case True
    then have m': "?m' L = Some (lang_add f ?row)"
      by (simp add: lang_stats_step_def Let_def)
    have "foldl (lang_stats_step is_source) m (f # fs) L =
        foldl (lang_stats_step is_source) ?m' fs L"
      by simp
    also have "\<dots> = Some (lang_sum (f # ?gs) ?row)"
      by (simp only: IH m' lang_sum_Cons lang_sum_Nil option.case if_distrib [of Some] if_cancel
          cong: if_cong) (simp add: lang_sum_Nil)
    finally show ?thesis
      using True by (simp add: Let_def)
  next
    case False
    then have m': "?m' L = m L"
      by (auto simp add: lang_stats_step_def Let_def)
    have "foldl (lang_stats_step is_source) m (f # fs) L =
        foldl (lang_stats_step is_source) ?m' fs L"
      by simp
    also have "\<dots> = (if ?gs = [] then m L else Some (lang_sum ?gs ?row))"
      by (simp only: IH m')
    finally show ?thesis
      using False by (auto simp add: Let_def)
  qed
qed

lemma lang_sum_mset:
  assumes "mset gs = mset hs"
  shows "lang_sum gs r = lang_sum hs r"
  using sum_list_map_mset [OF assms] mset_eq_length [OF assms]
  by (simp add: lang_sum_def)

lemma lang_stats_mset:
  assumes "mset (concat (map files pss)) = mset (concat (map files pss'))"
  shows "lang_stats is_source pss = lang_stats is_source pss'"
proof (rule ext)
  fix L
  let ?P = "\<lambda>f. is_source (path f) \<and> language f = L"
  let ?X = "concat (map files pss)" and ?Y = "concat (map files pss')"
  have "mset (filter ?P ?X) = filter_mset ?P (mset ?X)"
    by (rule mset_filter)
  also have "\<dots> = filter_mset ?P (mset ?Y)"
    by (simp only: assms)
  also have "\<dots> = mset (filter ?P ?Y)"
    by (rule mset_filter [symmetric])
  finally have e: "mset (filter ?P ?X) = mset (filter ?P ?Y)" .
  have "filter ?P ?X = [] \<longleftrightarrow> mset (filter ?P ?X) = {#}"
    by (simp only: mset_zero_iff)
  also have "\<dots> \<longleftrightarrow> mset (filter ?P ?Y) = {#}"
    by (simp only: e)
  also have "\<dots> \<longleftrightarrow> filter ?P ?Y = []"
    by (simp only: mset_zero_iff)
  finally have n: "filter ?P ?X = [] \<longleftrightarrow> filter ?P ?Y = []" .
  have s: "lang_sum (filter ?P ?X) r = lang_sum (filter ?P ?Y) r" for r
    by (rule lang_sum_mset [OF e])
  have "lang_stats is_source pss L =
      (if filter ?P ?X = [] then None else Some (lang_sum (filter ?P ?X) lang_default))"
    by (simp add: lang_stats_def lang_stats_fold Let_def)
  also have "\<dots> = (if filter ?P ?Y = [] then None else Some (lang_sum (filter ?P ?Y) lang_default))"
    by (simp only: n s)
  also have "\<dots> = lang_stats is_source pss' L"
    by (simp add: lang_stats_def lang_stats_fold Let_def)
  finally show "lang_stats is_source pss L = lang_stats is_source pss' L" .
qed

text \<open>
  C6. The aggregates depend on the files as a multiset only. Two platforms whose file
  lists are permutations of each other have the same file count, the same total, code,
  comment, docstring and blank line sums and the same sorted list of lengths. When the
  files of a platform are split over platforms \<open>parts\<close> in any way, the sums of the
  parts' aggregates are the aggregates of the whole. The per-language rows of
  \<open>_lang_stats\<close> are the same for any two lists of platforms that hold the same files.
\<close>

theorem aggregation_order_independent:
  assumes "mset (files a) = mset (files b)"
    and "mset (concat (map files parts)) = mset (files a)"
    and "mset (concat (map files pss)) = mset (concat (map files pss'))"
  shows "total_files a = total_files b
    \<and> platform_total_lines a = platform_total_lines b
    \<and> platform_code_lines a = platform_code_lines b
    \<and> platform_comment_lines a = platform_comment_lines b
    \<and> platform_docstring_lines a = platform_docstring_lines b
    \<and> platform_blank_lines a = platform_blank_lines b
    \<and> file_lengths a = file_lengths b
    \<and> sum_list (map total_files parts) = total_files a
    \<and> sum_list (map platform_total_lines parts) = platform_total_lines a
    \<and> sum_list (map platform_code_lines parts) = platform_code_lines a
    \<and> sum_list (map platform_comment_lines parts) = platform_comment_lines a
    \<and> sum_list (map platform_docstring_lines parts) = platform_docstring_lines a
    \<and> sum_list (map platform_blank_lines parts) = platform_blank_lines a
    \<and> lang_stats is_source pss = lang_stats is_source pss'"
proof -
  note perm = sum_list_map_mset [OF assms(1)]
  note part = sum_list_map_mset [OF assms(2)]
  have 1: "total_files a = total_files b"
    using mset_eq_length [OF assms(1)] by (simp add: total_files_def)
  have 2: "platform_total_lines a = platform_total_lines b"
    "platform_code_lines a = platform_code_lines b"
    "platform_comment_lines a = platform_comment_lines b"
    "platform_docstring_lines a = platform_docstring_lines b"
    "platform_blank_lines a = platform_blank_lines b"
    unfolding platform_total_lines_def platform_code_lines_def platform_comment_lines_def
      platform_docstring_lines_def platform_blank_lines_def
    by (rule perm)+
  have 3: "file_lengths a = file_lengths b"
    unfolding file_lengths_def by (rule sort_map_mset [OF assms(1)])
  have 4: "sum_list (map total_files parts) = total_files a"
    using mset_eq_length [OF assms(2)]
    by (simp add: total_files_def [abs_def] length_concat_map)
  have 5: "sum_list (map platform_total_lines parts) = platform_total_lines a"
    "sum_list (map platform_code_lines parts) = platform_code_lines a"
    "sum_list (map platform_comment_lines parts) = platform_comment_lines a"
    "sum_list (map platform_docstring_lines parts) = platform_docstring_lines a"
    "sum_list (map platform_blank_lines parts) = platform_blank_lines a"
    unfolding platform_total_lines_def [abs_def] platform_code_lines_def [abs_def]
      platform_comment_lines_def [abs_def] platform_docstring_lines_def [abs_def]
      platform_blank_lines_def [abs_def] sum_list_concat_map
    by (rule part)+
  have 6: "lang_stats is_source pss = lang_stats is_source pss'"
    by (rule lang_stats_mset [OF assms(3)])
  from 1 2 3 4 5 6 show ?thesis by (intro conjI)
qed

theorem aggregation_order_independent_witness:
  "(let f1 = (new_FileStats (ascii ''a.swift'') (ascii ''Swift''))
               \<lparr>total_lines := 3, code_lines := 2, blank_lines := 1\<rparr>;
        f2 = (new_FileStats (ascii ''b.kt'') (ascii ''Kotlin''))
               \<lparr>total_lines := 5, code_lines := 1, comment_lines := 4\<rparr>;
        f3 = (new_FileStats (ascii ''c.swift'') (ascii ''Swift''))
               \<lparr>total_lines := 7, docstring_lines := 7\<rparr>;
        a = \<lparr>name = ascii ''iOS'', files = [f1, f2, f3]\<rparr>;
        b = \<lparr>name = ascii ''iOS'', files = [f3, f1, f2]\<rparr>;
        parts = [\<lparr>name = ascii ''one'', files = [f2]\<rparr>,
                 \<lparr>name = ascii ''two'', files = [f3, f1]\<rparr>]
    in mset (files a) = mset (files b)
     \<and> mset (concat (map files parts)) = mset (files a)
     \<and> mset (concat (map files [a])) = mset (concat (map files parts))
     \<and> platform_total_lines a = platform_total_lines b
     \<and> platform_total_lines b = 15
     \<and> file_lengths a = file_lengths b
     \<and> sum_list (map platform_code_lines parts) = platform_code_lines a
     \<and> sum_list (map platform_code_lines parts) = 3
     \<and> lang_stats (\<lambda>p. True) [a] = lang_stats (\<lambda>p. True) parts)"
proof -
  define f1 where "f1 = (new_FileStats (ascii ''a.swift'') (ascii ''Swift''))
               \<lparr>total_lines := 3, code_lines := 2, blank_lines := 1\<rparr>"
  define f2 where "f2 = (new_FileStats (ascii ''b.kt'') (ascii ''Kotlin''))
               \<lparr>total_lines := 5, code_lines := 1, comment_lines := 4\<rparr>"
  define f3 where "f3 = (new_FileStats (ascii ''c.swift'') (ascii ''Swift''))
               \<lparr>total_lines := 7, docstring_lines := 7\<rparr>"
  define a where "a = \<lparr>name = ascii ''iOS'', files = [f1, f2, f3]\<rparr>"
  define b where "b = \<lparr>name = ascii ''iOS'', files = [f3, f1, f2]\<rparr>"
  define parts where "parts = [\<lparr>name = ascii ''one'', files = [f2]\<rparr>,
                 \<lparr>name = ascii ''two'', files = [f3, f1]\<rparr>]"
  have h1: "mset (files a) = mset (files b)"
    by (simp add: a_def b_def)
  have h2: "mset (concat (map files parts)) = mset (files a)"
    by (simp add: a_def parts_def)
  have h3: "mset (concat (map files [a])) = mset (concat (map files parts))"
    by (simp add: a_def parts_def)
  note t = aggregation_order_independent [OF h1 h2 h3, of "\<lambda>p. True"]
  have c: "platform_total_lines a = platform_total_lines b
     \<and> file_lengths a = file_lengths b
     \<and> sum_list (map platform_code_lines parts) = platform_code_lines a
     \<and> lang_stats (\<lambda>p. True) [a] = lang_stats (\<lambda>p. True) parts"
    using t by (elim conjE) (intro conjI, assumption+)
  have v: "platform_total_lines a = 15" "platform_code_lines a = 3"
    by (simp_all add: platform_total_lines_def platform_code_lines_def a_def f1_def f2_def
        f3_def new_FileStats_def)
  from c v have "platform_total_lines b = 15 \<and> sum_list (map platform_code_lines parts) = 3"
    by simp
  with c h1 h2 h3 show ?thesis
    unfolding Let_def f1_def [symmetric] f2_def [symmetric] f3_def [symmetric]
      a_def [symmetric] b_def [symmetric] parts_def [symmetric]
    by (intro conjI) (elim conjE, assumption)+
qed

end
